theory Spec2Isabelle
  imports Main "HOL-Library.AList" "HOL-Library.Sublist"
begin

section \<open>The address book of HW07_AddressBook.py\<close>

text \<open>
  The program keeps a dictionary from contact names to records; a record holds a name, a
  list of phone numbers and an optional birthday.  The embedding follows the classes of
  the source one by one.

  A Python \<open>str\<close> is a sequence of Unicode code points.  The model uses \<open>string\<close>, one
  \<open>char\<close> for each code point, which covers the code points U+0000 to U+00FF.

  A \<open>Field\<close> object (\<open>Name\<close>, \<open>Phone\<close>, \<open>Birthday\<close>) has one attribute, \<open>value\<close>, set
  by the constructor and never assigned again; the model identifies the object with that
  value, so \<open>ph.value\<close> of the source is \<open>ph\<close> here and \<open>Field.__str__\<close> of a phone is the
  stored string itself.

  An exception is a value: a function that can raise returns \<open>error + 'a\<close>, and a method
  that mutates its object returns the outcome together with the object afterwards.
\<close>

datatype error = ValueError | KeyError | OverflowError

subsection \<open>Phone\<close>

text \<open>
  \<open>str.isdigit\<close>: true when the string is not empty and every character is a digit in the
  sense of Unicode (numeric type Digit or Decimal).  Below U+0100 these are the ten ASCII
  digits and the superscripts U+00B2, U+00B3 and U+00B9.
\<close>

definition isdigit_char :: "char \<Rightarrow> bool" where
  "isdigit_char c = (c \<in> set ''0123456789'' \<or> c \<in> {CHR 0xB2, CHR 0xB3, CHR 0xB9})"

definition isdigit :: "string \<Rightarrow> bool" where
  "isdigit s = (s \<noteq> [] \<and> list_all isdigit_char s)"

definition ascii_digit :: "char \<Rightarrow> bool" where
  "ascii_digit c = (c \<in> set ''0123456789'')"

text \<open>\<open>Phone.__init__\<close>; the argument is a \<open>str\<close>, so the \<open>isinstance\<close> test passes.\<close>

definition Phone_init :: "string \<Rightarrow> error + string" where
  "Phone_init v = (if \<not> (isdigit v \<and> length v = 10) then Inl ValueError else Inr v)"

definition Field_str :: "string \<Rightarrow> string" where
  "Field_str v = v"

subsection \<open>Dates of the datetime library\<close>

text \<open>
  \<open>datetime.date\<close> is library code.  The definitions below follow the reference
  implementation of the library (the functions \<open>_is_leap\<close>, \<open>_days_before_year\<close>,
  \<open>_days_in_month\<close>, \<open>_days_before_month\<close>, \<open>_ymd2ord\<close>, \<open>_ord2ymd\<close> and the methods of
  class \<open>date\<close>), as far as the program uses them.  Python's \<open>//\<close> and \<open>%\<close> round towards
  minus infinity, as \<open>div\<close> and \<open>mod\<close> on \<open>int\<close> do.
\<close>

record date =
  year :: int
  month :: int
  day :: int

definition MINYEAR :: int where "MINYEAR = 1"
definition MAXYEAR :: int where "MAXYEAR = 9999"
definition MAXORDINAL :: int where "MAXORDINAL = 3652059"

definition DAYS_IN_MONTH :: "int list" where
  "DAYS_IN_MONTH = [-1, 31, 28, 31, 30, 31, 30, 31, 31, 30, 31, 30, 31]"

definition DAYS_BEFORE_MONTH :: "int list" where
  "DAYS_BEFORE_MONTH = [-1, 0, 31, 59, 90, 120, 151, 181, 212, 243, 273, 304, 334]"

definition is_leap :: "int \<Rightarrow> bool" where
  "is_leap y = (y mod 4 = 0 \<and> (y mod 100 \<noteq> 0 \<or> y mod 400 = 0))"

definition days_before_year :: "int \<Rightarrow> int" where
  "days_before_year yr = (let y = yr - 1 in y * 365 + y div 4 - y div 100 + y div 400)"

definition days_in_month :: "int \<Rightarrow> int \<Rightarrow> int" where
  "days_in_month y m = (if m = 2 \<and> is_leap y then 29 else DAYS_IN_MONTH ! nat m)"

definition days_before_month :: "int \<Rightarrow> int \<Rightarrow> int" where
  "days_before_month y m = DAYS_BEFORE_MONTH ! nat m + (if m > 2 \<and> is_leap y then 1 else 0)"

definition ymd2ord :: "int \<Rightarrow> int \<Rightarrow> int \<Rightarrow> int" where
  "ymd2ord y m d = days_before_year y + days_before_month y m + d"

text \<open>
  \<open>_ord2ymd\<close>, for an ordinal between 1 and \<open>MAXORDINAL\<close>; the three constants are the
  days in 400, 100 and 4 years.
\<close>

definition ord2ymd :: "int \<Rightarrow> int \<times> int \<times> int" where
  "ord2ymd n0 =
     (let n = n0 - 1;
          n400 = n div 146097; n = n mod 146097;
          yr = n400 * 400 + 1;
          n100 = n div 36524; n = n mod 36524;
          n4 = n div 1461; n = n mod 1461;
          n1 = n div 365; n = n mod 365;
          yr = yr + n100 * 100 + n4 * 4 + n1
      in if n1 = 4 \<or> n100 = 4 then (yr - 1, 12, 31)
         else
           (let leapyear = (n1 = 3 \<and> (n4 \<noteq> 24 \<or> n100 = 3));
                mth = (n + 50) div 32;
                preceding = DAYS_BEFORE_MONTH ! nat mth + (if mth > 2 \<and> leapyear then 1 else 0)
            in if preceding > n
               then (let mth' = mth - 1;
                         preceding' = preceding -
                           (DAYS_IN_MONTH ! nat mth' + (if mth' = 2 \<and> leapyear then 1 else 0))
                     in (yr, mth', n - preceding' + 1))
               else (yr, mth, n - preceding + 1)))"

text \<open>A \<open>date\<close> object exists only with fields that pass \<open>_check_date_fields\<close>.\<close>

definition valid_date :: "date \<Rightarrow> bool" where
  "valid_date d =
     (MINYEAR \<le> year d \<and> year d \<le> MAXYEAR \<and> 1 \<le> month d \<and> month d \<le> 12 \<and>
      1 \<le> day d \<and> day d \<le> days_in_month (year d) (month d))"

text \<open>The constructor \<open>date(year, month, day)\<close>.\<close>

definition date_new :: "int \<Rightarrow> int \<Rightarrow> int \<Rightarrow> error + date" where
  "date_new y m d =
     (if \<not> (MINYEAR \<le> y \<and> y \<le> MAXYEAR) then Inl ValueError
      else if \<not> (1 \<le> m \<and> m \<le> 12) then Inl ValueError
      else if \<not> (1 \<le> d \<and> d \<le> days_in_month y m) then Inl ValueError
      else Inr \<lparr>year = y, month = m, day = d\<rparr>)"

text \<open>\<open>d.replace(year=y)\<close> builds a new date from \<open>y\<close> and the month and day of \<open>d\<close>.\<close>

definition replace_year :: "date \<Rightarrow> int \<Rightarrow> error + date" where
  "replace_year d y = date_new y (month d) (day d)"

text \<open>\<open>a < b\<close> compares the triples (year, month, day).\<close>

definition date_less :: "date \<Rightarrow> date \<Rightarrow> bool" where
  "date_less a b =
     (year a < year b \<or> (year a = year b \<and> (month a < month b \<or> (month a = month b \<and> day a < day b))))"

definition toordinal :: "date \<Rightarrow> int" where
  "toordinal d = ymd2ord (year d) (month d) (day d)"

definition fromordinal :: "int \<Rightarrow> date" where
  "fromordinal n = (case ord2ymd n of (y, m, d) \<Rightarrow> \<lparr>year = y, month = m, day = d\<rparr>)"

definition weekday :: "date \<Rightarrow> int" where
  "weekday d = (toordinal d + 6) mod 7"

text \<open>\<open>(a - b).days\<close>.\<close>

definition days_between :: "date \<Rightarrow> date \<Rightarrow> int" where
  "days_between a b = toordinal a - toordinal b"

text \<open>\<open>d + timedelta(days=n)\<close>.\<close>

definition date_add :: "date \<Rightarrow> int \<Rightarrow> error + date" where
  "date_add d n =
     (let o1 = toordinal d + n
      in if 0 < o1 \<and> o1 \<le> MAXORDINAL then Inr (fromordinal o1) else Inl OverflowError)"

text \<open>
  Formatting.  \<open>%d\<close> and \<open>%m\<close> print two digits.  \<open>%Y\<close> is handed to the C library, which
  prints the year in decimal; the GNU C library does not pad it, so that
  \<open>date(999, 1, 2).strftime("%d.%m.%Y")\<close> is \<open>02.01.999\<close>.  From the year 1000 on every C
  library prints the same four digits.
\<close>

definition digit_char :: "int \<Rightarrow> char" where
  "digit_char n = ''0123456789'' ! nat n"

definition pad2 :: "int \<Rightarrow> string" where
  "pad2 n = [digit_char (n div 10 mod 10), digit_char (n mod 10)]"

fun decimal :: "nat \<Rightarrow> string" where
  "decimal n = (if n < 10 then [digit_char (int n)]
                else decimal (n div 10) @ [digit_char (int (n mod 10))])"

definition strftime_Ymd :: "date \<Rightarrow> string" where
  "strftime_Ymd d = decimal (nat (year d)) @ ''.'' @ pad2 (month d) @ ''.'' @ pad2 (day d)"

definition strftime_dmY :: "date \<Rightarrow> string" where
  "strftime_dmY d = pad2 (day d) @ ''.'' @ pad2 (month d) @ ''.'' @ decimal (nat (year d))"

text \<open>
  Parsing.  \<open>datetime.strptime(value, "%d.%m.%Y")\<close> compiles the format into the regular
  expression
  \<^verbatim>\<open>(?P<d>3[0-1]|[1-2]\d|0[1-9]|[1-9]| [1-9])\.(?P<m>1[0-2]|0[1-9]|[1-9])\.(?P<Y>\d\d\d\d)\<close>
  and matches it at the start of the string; the alternatives of a group are tried in
  order, with backtracking.  A match that does not end at the end of the string is
  refused, then the three groups go through \<open>int\<close> and the date is built.  Below U+0100
  the class \<open>\d\<close> holds the ten ASCII digits (\<open>re_digit\<close>).
\<close>

text \<open>One character of each class in turn; the result is the matched text and the rest.\<close>

fun match_seq :: "string list \<Rightarrow> string \<Rightarrow> (string \<times> string) option" where
  "match_seq [] s = Some ([], s)"
| "match_seq (cl # cls) [] = None"
| "match_seq (cl # cls) (c # s) =
     (if c \<in> set cl then map_option (\<lambda>(t, r). (c # t, r)) (match_seq cls s) else None)"

text \<open>The matches of the alternatives, in the order of the alternatives.\<close>

definition re_alt :: "string list list \<Rightarrow> string \<Rightarrow> (string \<times> string) list" where
  "re_alt alts s = List.map_filter (\<lambda>cls. match_seq cls s) alts"

definition re_digit :: string where
  "re_digit = ''0123456789''"

definition RE_d :: "string list list" where
  "RE_d = [[''3'', ''01''], [''12'', re_digit], [''0'', ''123456789''], [''123456789''],
           ['' '', ''123456789'']]"

definition RE_m :: "string list list" where
  "RE_m = [[''1'', ''012''], [''0'', ''123456789''], [''123456789'']]"

definition RE_Y :: "string list list" where
  "RE_Y = [[re_digit, re_digit, re_digit, re_digit]]"

definition RE_dot :: "string list list" where
  "RE_dot = [[''.'']]"

text \<open>All the ways the expression matches a prefix, first match first: the groups and the rest.\<close>

definition regex_matches :: "string \<Rightarrow> (string \<times> string \<times> string \<times> string) list" where
  "regex_matches s =
     [(d, m, y, r5). (d, r1) \<leftarrow> re_alt RE_d s, (p1, r2) \<leftarrow> re_alt RE_dot r1,
                     (m, r3) \<leftarrow> re_alt RE_m r2, (p2, r4) \<leftarrow> re_alt RE_dot r3,
                     (y, r5) \<leftarrow> re_alt RE_Y r4]"

text \<open>\<open>int\<close> of a matched group: leading blanks are skipped, the digits are read in base ten.\<close>

definition digit_val :: "char \<Rightarrow> int" where
  "digit_val c = int (of_char c) - 48"

definition py_int :: "string \<Rightarrow> int" where
  "py_int s = foldl (\<lambda>a c. a * 10 + digit_val c) 0 (dropWhile (\<lambda>c. c = CHR '' '') s)"

definition strptime_dmY :: "string \<Rightarrow> error + date" where
  "strptime_dmY s =
     (case regex_matches s of
        [] \<Rightarrow> Inl ValueError
      | (d, m, y, rest) # others \<Rightarrow>
          if rest \<noteq> [] then Inl ValueError else date_new (py_int y) (py_int m) (py_int d))"

subsection \<open>Birthday\<close>

text \<open>\<open>Birthday.__init__\<close> catches the \<open>ValueError\<close> of the parser and raises its own.\<close>

definition Birthday_init :: "string \<Rightarrow> error + date" where
  "Birthday_init v =
     (case strptime_dmY v of
        Inl ValueError \<Rightarrow> Inl ValueError
      | Inl e \<Rightarrow> Inl e
      | Inr parsed \<Rightarrow> Inr parsed)"

definition Birthday_str :: "date \<Rightarrow> string" where
  "Birthday_str b = strftime_dmY b"

subsection \<open>Record\<close>

record Record =
  name :: string
  phones :: "string list"
  birthday :: "date option"

text \<open>\<open>Record.__init__\<close>: \<open>Name(name)\<close> stores the string as it is; nothing is checked.\<close>

definition Record_init :: "string \<Rightarrow> Record" where
  "Record_init n = \<lparr>name = n, phones = [], birthday = None\<rparr>"

definition add_phone :: "Record \<Rightarrow> string \<Rightarrow> (error + unit) \<times> Record" where
  "add_phone r phone_str =
     (case Phone_init phone_str of
        Inl e \<Rightarrow> (Inl e, r)
      | Inr phone_obj \<Rightarrow>
          (Inr (), if \<not> list_ex (\<lambda>p. p = phone_obj) (phones r)
                   then r\<lparr>phones := phones r @ [phone_obj]\<rparr> else r))"

text \<open>
  \<open>remove_phone\<close>: the loop stops at the first phone with the given value and removes that
  element.
\<close>

fun remove_first :: "string \<Rightarrow> string list \<Rightarrow> string list" where
  "remove_first phone_str [] = []"
| "remove_first phone_str (ph # phs) =
     (if ph = phone_str then phs else ph # remove_first phone_str phs)"

definition remove_phone :: "Record \<Rightarrow> string \<Rightarrow> Record" where
  "remove_phone r phone_str = r\<lparr>phones := remove_first phone_str (phones r)\<rparr>"

text \<open>
  \<open>edit_phone\<close>: the loop over \<open>enumerate(self.phones)\<close>.  The new number is validated
  inside the loop, once a phone with the old value has been found; when \<open>Phone(new_phone)\<close>
  raises, nothing has been assigned yet.
\<close>

fun edit_loop :: "string list \<Rightarrow> string \<Rightarrow> string \<Rightarrow> (error + bool) \<times> string list" where
  "edit_loop [] old_phone new_phone = (Inr False, [])"
| "edit_loop (ph # phs) old_phone new_phone =
     (if ph = old_phone then
        (case Phone_init new_phone of
           Inl e \<Rightarrow> (Inl e, ph # phs)
         | Inr new_phone_obj \<Rightarrow> (Inr True, new_phone_obj # phs))
      else (case edit_loop phs old_phone new_phone of (res, phs') \<Rightarrow> (res, ph # phs')))"

definition edit_phone :: "Record \<Rightarrow> string \<Rightarrow> string \<Rightarrow> (error + bool) \<times> Record" where
  "edit_phone r old_phone new_phone =
     (case edit_loop (phones r) old_phone new_phone of (res, phs') \<Rightarrow> (res, r\<lparr>phones := phs'\<rparr>))"

definition add_birthday :: "Record \<Rightarrow> string \<Rightarrow> (error + unit) \<times> Record" where
  "add_birthday r bday_str =
     (case Birthday_init bday_str of
        Inl e \<Rightarrow> (Inl e, r)
      | Inr b \<Rightarrow> (Inr (), r\<lparr>birthday := Some b\<rparr>))"

subsection \<open>AddressBook\<close>

text \<open>
  The \<open>data\<close> dictionary of the \<open>UserDict\<close>, as an association list in insertion order:
  assigning to a key that is present keeps its position, a new key goes to the end.
\<close>

type_synonym AddressBook = "(string \<times> Record) list"

definition add_record :: "AddressBook \<Rightarrow> Record \<Rightarrow> AddressBook" where
  "add_record book r = AList.update (name r) r book"

definition find_record :: "AddressBook \<Rightarrow> string \<Rightarrow> error + Record" where
  "find_record book n = (case map_of book n of None \<Rightarrow> Inl KeyError | Some rec \<Rightarrow> Inr rec)"

definition delete_record :: "AddressBook \<Rightarrow> string \<Rightarrow> bool \<times> AddressBook" where
  "delete_record book n =
     (if n \<in> fst ` set book then (True, AList.delete n book) else (False, book))"

subsection \<open>Sequences of operations\<close>

text \<open>
  What a caller can do to an address book: add a record, delete a name, or look a name up
  with \<open>find\<close> and call a method of the record found.  \<open>find\<close> returns the object held
  by the dictionary, so the call changes the record in place; a method that raises leaves
  the record as it was.  \<open>run\<close> applies a sequence of such operations to the empty book.
\<close>

datatype mutation = Add_phone string | Remove_phone string | Edit_phone string string | Add_birthday string

fun call :: "mutation \<Rightarrow> Record \<Rightarrow> Record" where
  "call (Add_phone s) r = snd (add_phone r s)"
| "call (Remove_phone s) r = remove_phone r s"
| "call (Edit_phone old new) r = snd (edit_phone r old new)"
| "call (Add_birthday s) r = snd (add_birthday r s)"

datatype operation = Add_record Record | Delete_name string | On_found string mutation

fun apply_operation :: "operation \<Rightarrow> AddressBook \<Rightarrow> AddressBook" where
  "apply_operation (Add_record r) book = add_record book r"
| "apply_operation (Delete_name n) book = snd (delete_record book n)"
| "apply_operation (On_found n m) book =
     (case find_record book n of Inl e \<Rightarrow> book | Inr r \<Rightarrow> AList.map_entry n (call m) book)"

definition run :: "operation list \<Rightarrow> AddressBook" where
  "run ops = fold apply_operation ops []"

text \<open>
  \<open>get_upcoming_birthdays\<close>.  The source reads \<open>date.today()\<close>; here the date is an
  argument.  \<open>loop_body\<close> is the body of the \<open>for\<close> loop for one record: an exception, no
  entry, or the entry that is appended (the name and the formatted congratulation date).
\<close>

definition loop_body :: "date \<Rightarrow> Record \<Rightarrow> error + (string \<times> string) option" where
  "loop_body today r =
     (case birthday r of
        None \<Rightarrow> Inr None
      | Some bday \<Rightarrow>
          (case replace_year bday (year today) of
             Inl e \<Rightarrow> Inl e
           | Inr this_year \<Rightarrow>
               (case (if date_less this_year today
                      then replace_year this_year (year today + 1) else Inr this_year) of
                  Inl e \<Rightarrow> Inl e
                | Inr birthday_this_year \<Rightarrow>
                    (let days_ahead = days_between birthday_this_year today
                     in if 0 \<le> days_ahead \<and> days_ahead \<le> 6 then
                          (case (if weekday birthday_this_year = 5 then date_add birthday_this_year 2
                                 else if weekday birthday_this_year = 6 then date_add birthday_this_year 1
                                 else Inr birthday_this_year) of
                             Inl e \<Rightarrow> Inl e
                           | Inr congratulation_date \<Rightarrow>
                               Inr (Some (name r, strftime_Ymd congratulation_date)))
                        else Inr None))))"

fun upcoming_loop :: "date \<Rightarrow> AddressBook \<Rightarrow> (string \<times> string) list \<Rightarrow> error + (string \<times> string) list" where
  "upcoming_loop today [] upcoming = Inr upcoming"
| "upcoming_loop today ((k, r) # rest) upcoming =
     (case loop_body today r of
        Inl e \<Rightarrow> Inl e
      | Inr None \<Rightarrow> upcoming_loop today rest upcoming
      | Inr (Some entry) \<Rightarrow> upcoming_loop today rest (upcoming @ [entry]))"

definition get_upcoming_birthdays :: "date \<Rightarrow> AddressBook \<Rightarrow> error + (string \<times> string) list" where
  "get_upcoming_birthdays today book = upcoming_loop today book []"

subsection \<open>Saving and loading\<close>

text \<open>
  The persisted layout is the dictionary \<open>data_to_save\<close>: for each name the list of phone
  strings and the birthday string or \<open>None\<close>.  \<open>json.dump\<close> writes it and \<open>json.load\<close> reads
  the same dictionary back, keys in the same order; the model starts and ends at that
  dictionary.
\<close>

type_synonym layout = "(string \<times> (string list \<times> string option)) list"

definition save_entry :: "string \<times> Record \<Rightarrow> layout \<Rightarrow> layout" where
  "save_entry = (\<lambda>(n, r) data_to_save.
     AList.update n (phones r, map_option strftime_dmY (birthday r)) data_to_save)"

definition save_address_book :: "AddressBook \<Rightarrow> layout" where
  "save_address_book book = fold save_entry book []"

text \<open>
  \<open>load_address_book\<close> for a file that exists and decodes.  A phone or a birthday that
  raises \<open>ValueError\<close> is logged and skipped, so only the record after the call is kept.
\<close>

fun load_phones :: "Record \<Rightarrow> string list \<Rightarrow> Record" where
  "load_phones r [] = r"
| "load_phones r (phone_str # rest) = load_phones (snd (add_phone r phone_str)) rest"

definition load_birthday :: "Record \<Rightarrow> string option \<Rightarrow> Record" where
  "load_birthday r birthday_str =
     (case birthday_str of
        None \<Rightarrow> r
      | Some s \<Rightarrow> if s = [] then r else snd (add_birthday r s))"

definition load_entry :: "string \<times> (string list \<times> string option) \<Rightarrow> AddressBook \<Rightarrow> AddressBook" where
  "load_entry = (\<lambda>(n, (phone_strs, birthday_str)) book.
     add_record book (load_birthday (load_phones (Record_init n) phone_strs) birthday_str))"

definition load_address_book :: "layout \<Rightarrow> AddressBook" where
  "load_address_book raw_data = fold load_entry raw_data []"

subsection \<open>The policy of the upcoming birthdays, in the words of the specification\<close>

text \<open>
  These definitions are not taken from the source; they state what the specification says
  about one contact, to be compared with \<open>get_upcoming_birthdays\<close>.  \<open>projected\<close> is the
  birthday projected onto the year of \<open>today\<close>, and onto the next year when that date is
  strictly earlier than \<open>today\<close>; \<open>projectable\<close> says that the dates the projection goes
  through are dates of the calendar; \<open>in_window\<close> is the window of seven days;
  \<open>greeting_date\<close> moves a Saturday two days and a Sunday one day forward;
  \<open>upcoming_entry\<close> is the entry of one record, if it has one, and \<open>included\<close> says
  whether it has one.  \<open>raises\<close> holds for the records with a birthday that cannot be
  projected.
\<close>

definition projected :: "date \<Rightarrow> date \<Rightarrow> date" where
  "projected today b =
     (if date_less (b\<lparr>year := year today\<rparr>) today then b\<lparr>year := year today + 1\<rparr>
      else b\<lparr>year := year today\<rparr>)"

definition projectable :: "date \<Rightarrow> date \<Rightarrow> bool" where
  "projectable today b = (valid_date (b\<lparr>year := year today\<rparr>) \<and> valid_date (projected today b))"

definition in_window :: "date \<Rightarrow> date \<Rightarrow> bool" where
  "in_window today d = (0 \<le> days_between d today \<and> days_between d today \<le> 6)"

definition greeting_date :: "date \<Rightarrow> date" where
  "greeting_date d =
     (if weekday d = 5 then fromordinal (toordinal d + 2)
      else if weekday d = 6 then fromordinal (toordinal d + 1)
      else d)"

definition upcoming_entry :: "date \<Rightarrow> Record \<Rightarrow> (string \<times> string) option" where
  "upcoming_entry today r =
     (case birthday r of
        None \<Rightarrow> None
      | Some b \<Rightarrow>
          if in_window today (projected today b)
          then Some (name r, strftime_Ymd (greeting_date (projected today b)))
          else None)"

definition included :: "date \<Rightarrow> Record \<Rightarrow> bool" where
  "included today r =
     (case birthday r of None \<Rightarrow> False | Some b \<Rightarrow> in_window today (projected today b))"

definition raises :: "date \<Rightarrow> Record \<Rightarrow> bool" where
  "raises today r = (case birthday r of None \<Rightarrow> False | Some b \<Rightarrow> \<not> projectable today b)"

text \<open>
  A book as \<open>add_record\<close> fills it: no key twice, and every record under its own name.
\<close>

definition wf_book :: "AddressBook \<Rightarrow> bool" where
  "wf_book book = (distinct (map fst book) \<and> list_all (\<lambda>(k, r). name r = k) book)"

text \<open>
  The strict pattern of the specification for a birthday: two digits, a period, two
  digits, a period, four digits.
\<close>

fun strict_pattern :: "string \<Rightarrow> bool" where
  "strict_pattern [d1, d2, p1, m1, m2, p2, y1, y2, y3, y4] =
     (ascii_digit d1 \<and> ascii_digit d2 \<and> p1 = CHR ''.'' \<and> ascii_digit m1 \<and> ascii_digit m2 \<and>
      p2 = CHR ''.'' \<and> ascii_digit y1 \<and> ascii_digit y2 \<and> ascii_digit y3 \<and> ascii_digit y4)"
| "strict_pattern s = False"

section \<open>Properties\<close>

subsection \<open>Phone numbers\<close>


text \<open>Every string of exactly ten ASCII digits is accepted and displays as it was given.\<close>

lemma ascii_digit_isdigit: "ascii_digit c \<Longrightarrow> isdigit_char c"
  unfolding ascii_digit_def isdigit_char_def by (rule disjI1)

lemma Phone_init_ascii:
  assumes "length raw = 10" and "\<forall>c \<in> set raw. ascii_digit c"
  shows "Phone_init raw = Inr raw \<and> Field_str raw = raw"
proof -
  from assms(2) have "list_all isdigit_char raw"
    unfolding list_all_iff using ascii_digit_isdigit by blast
  moreover from assms(1) have "raw \<noteq> []" by auto
  ultimately have "isdigit raw" unfolding isdigit_def by (rule conjI [rotated])
  with assms(1) show ?thesis by (simp add: Phone_init_def Field_str_def)
qed

lemma Phone_init_examples:
  "Phone_init ''0501112233'' = Inr ''0501112233'' \<and> Phone_init ''050-111-22'' = Inl ValueError \<and>
   Phone_init ''050111223'' = Inl ValueError"
  by (simp add: Phone_init_def isdigit_def isdigit_char_def)

text \<open>
  Claim C3 at the input where the code breaks it.  The string of ten superscript twos
  (U+00B2) has no ASCII digit in it, and \<open>Phone\<close> accepts it: \<open>str.isdigit\<close> is true of it
  and its length is ten.
\<close>

theorem Phone_init_superscripts:
  "Phone_init [CHR 0xB2, CHR 0xB2, CHR 0xB2, CHR 0xB2, CHR 0xB2, CHR 0xB2, CHR 0xB2, CHR 0xB2, CHR 0xB2, CHR 0xB2] =
     Inr [CHR 0xB2, CHR 0xB2, CHR 0xB2, CHR 0xB2, CHR 0xB2, CHR 0xB2, CHR 0xB2, CHR 0xB2, CHR 0xB2, CHR 0xB2] \<and>
   \<not> ascii_digit (CHR 0xB2)"
  by (simp add: Phone_init_def isdigit_def isdigit_char_def ascii_digit_def)

subsection \<open>Records\<close>

text \<open>
  Claim C5, as the code has it.  \<open>Record(name)\<close> never fails: for every string, the empty
  one and blank ones included, it returns a record with that name, no phones and no
  birthday.
\<close>

theorem Record_init_any:
  "name (Record_init n) = n \<and> phones (Record_init n) = [] \<and> birthday (Record_init n) = None"
  by (simp add: Record_init_def)

text \<open>
  Claim C5 as stated fails: the empty name and a name of two blanks both give a record.
\<close>

theorem Record_init_counterexample:
  "Record_init '''' = \<lparr>name = '''', phones = [], birthday = None\<rparr> \<and>
   Record_init ''  '' = \<lparr>name = ''  '', phones = [], birthday = None\<rparr>"
  by (simp add: Record_init_def)







text \<open>
  Adding and removing keep the phones of a record pairwise different, and adding a valid
  phone a second time changes nothing.
\<close>

lemma add_phone_distinct: "distinct (phones r) \<Longrightarrow> distinct (phones (snd (add_phone r s)))"
  by (auto simp: add_phone_def list_ex_iff split: sum.splits)

lemma remove_first_set: "set (remove_first s phs) \<subseteq> set phs"
  by (induction phs) auto

lemma remove_first_distinct: "distinct phs \<Longrightarrow> distinct (remove_first s phs)"
  using remove_first_set by (induction phs) auto

lemma remove_phone_distinct: "distinct (phones r) \<Longrightarrow> distinct (phones (remove_phone r s))"
  by (simp add: remove_phone_def remove_first_distinct)

lemma add_phone_twice:
  "isdigit s \<and> length s = 10 \<Longrightarrow> snd (add_phone (snd (add_phone r s)) s) = snd (add_phone r s)"
  by (auto simp: add_phone_def Phone_init_def list_ex_iff)

text \<open>
  Claim C4 at the input where the code breaks it.  A record holds two different phones;
  \<open>edit_phone\<close> replaces the first by the value of the second and returns \<open>True\<close>, and the
  record then holds the same number twice.
\<close>

theorem edit_phone_duplicates:
  "edit_phone \<lparr>name = ''Ann'', phones = [''0501112233'', ''0671234567''], birthday = None\<rparr>
      ''0501112233'' ''0671234567'' =
     (Inr True, \<lparr>name = ''Ann'', phones = [''0671234567'', ''0671234567''], birthday = None\<rparr>) \<and>
   distinct [''0501112233'', ''0671234567''] \<and> \<not> distinct [''0671234567'', ''0671234567'']"
  by (simp add: edit_phone_def Phone_init_def isdigit_def isdigit_char_def)

subsection \<open>The address book\<close>

lemma find_add_record:
  "find_record (add_record book c) n = (if n = name c then Inr c else find_record book n)"
  by (simp add: find_record_def add_record_def update_conv')

lemma distinct_apply_operation:
  "distinct (map fst book) \<Longrightarrow> distinct (map fst (apply_operation op book))"
  by (cases op)
     (auto simp: add_record_def delete_record_def distinct_update distinct_delete
        distinct_map_entry split: sum.splits)

lemma distinct_fold_operations:
  "distinct (map fst book) \<Longrightarrow> distinct (map fst (fold apply_operation ops book))"
  by (induction ops arbitrary: book)
     (auto simp: distinct_apply_operation simp del: apply_operation.simps)

text \<open>
  Claim C8.  \<open>add_record\<close> is total and returns only the new book.  Afterwards the name of
  the added record is mapped to exactly that record, whatever was stored under the name
  before, and every other name is mapped as before.  After every sequence of operations
  on an empty book no name occurs twice among the keys.
\<close>

theorem add_record_replaces:
  "find_record (add_record book c) (name c) = Inr c \<and>
   (\<forall>n. n \<noteq> name c \<longrightarrow> find_record (add_record book c) n = find_record book n) \<and>
   distinct (map fst (run ops))"
  by (simp add: find_add_record run_def distinct_fold_operations)

theorem add_record_replaces_witness:
  "find_record
     (add_record [(''Ann'', \<lparr>name = ''Ann'', phones = [''0501112233''], birthday = None\<rparr>)]
        \<lparr>name = ''Ann'', phones = [''0671234567''], birthday = None\<rparr>) ''Ann'' =
     Inr \<lparr>name = ''Ann'', phones = [''0671234567''], birthday = None\<rparr> \<and>
   distinct (map fst (run
     [Add_record \<lparr>name = ''Ann'', phones = [''0501112233''], birthday = None\<rparr>,
      Add_record \<lparr>name = ''Ann'', phones = [''0671234567''], birthday = None\<rparr>]))"
  using add_record_replaces
    [of "[(''Ann'', \<lparr>name = ''Ann'', phones = [''0501112233''], birthday = None\<rparr>)]"
        "\<lparr>name = ''Ann'', phones = [''0671234567''], birthday = None\<rparr>"
        "[Add_record \<lparr>name = ''Ann'', phones = [''0501112233''], birthday = None\<rparr>,
          Add_record \<lparr>name = ''Ann'', phones = [''0671234567''], birthday = None\<rparr>]"]
  by simp

subsection \<open>Dates\<close>

lemma month_cases:
  "1 \<le> (m::int) \<Longrightarrow> m \<le> 12 \<Longrightarrow>
   m = 1 \<or> m = 2 \<or> m = 3 \<or> m = 4 \<or> m = 5 \<or> m = 6 \<or> m = 7 \<or> m = 8 \<or> m = 9 \<or> m = 10 \<or> m = 11 \<or> m = 12"
  by arith

lemma day_of_year_bounds:
  assumes "1 \<le> m" "m \<le> 12" "1 \<le> d" "d \<le> days_in_month y m"
  shows "1 \<le> days_before_month y m + d \<and> days_before_month y m + d \<le> (if is_leap y then 366 else 365)"
  using month_cases [OF assms(1,2)] assms(3,4)
  by (elim disjE) (simp_all add: days_before_month_def days_in_month_def DAYS_BEFORE_MONTH_def DAYS_IN_MONTH_def split: if_splits)

lemma days_before_year_bounds:
  assumes "1 \<le> y"
  shows "0 \<le> days_before_year y" and "y \<le> 9998 \<Longrightarrow> days_before_year y \<le> 3651693"
proof -
  define n where "n = y - 1"
  define q4 where "q4 = n div 4"
  define q100 where "q100 = n div 100"
  define q400 where "q400 = n div 400"
  have n: "0 \<le> n" using assms by (simp add: n_def)
  have a: "q4 * 4 \<le> n" "n < q100 * 100 + 100" "q400 * 400 \<le> n" "q100 * 100 \<le> n"
    unfolding q4_def q100_def q400_def
    using div_mult_mod_eq [of n 4] div_mult_mod_eq [of n 100] div_mult_mod_eq [of n 400]
      pos_mod_sign [of 4 n] pos_mod_sign [of 100 n] pos_mod_sign [of 400 n]
      pos_mod_bound [of 100 n]
    by linarith+
  have b: "0 \<le> q400" unfolding q400_def using n by (simp add: pos_imp_zdiv_nonneg_iff)
  have e: "days_before_year y = n * 365 + q4 - q100 + q400"
    by (simp add: days_before_year_def n_def q4_def q100_def q400_def Let_def)
  have c: "0 \<le> q4" unfolding q4_def using n by (simp add: pos_imp_zdiv_nonneg_iff)
  show "0 \<le> days_before_year y" unfolding e using a b c n by linarith
  show "days_before_year y \<le> 3651693" if "y \<le> 9998"
  proof -
    from that have "n \<le> 9997" by (simp add: n_def)
    then show ?thesis unfolding e using a by linarith
  qed
qed

lemma days_before_year_9999: "days_before_year 9999 = 3651694"
  by (simp add: days_before_year_def)

lemma not_leap_9999: "\<not> is_leap 9999"
  by (simp add: is_leap_def)

lemma toordinal_bounds:
  assumes "valid_date d"
  shows "1 \<le> toordinal d \<and> toordinal d \<le> MAXORDINAL"
proof -
  from assms have y: "1 \<le> year d" "year d \<le> 9999"
    and md: "1 \<le> month d" "month d \<le> 12" "1 \<le> day d" "day d \<le> days_in_month (year d) (month d)"
    by (simp_all add: valid_date_def MINYEAR_def MAXYEAR_def)
  note doy = day_of_year_bounds [OF md]
  note lo = days_before_year_bounds(1) [OF y(1)]
  show ?thesis
  proof (cases "year d = 9999")
    case True
    with doy lo show ?thesis
      by (simp add: toordinal_def ymd2ord_def MAXORDINAL_def days_before_year_9999 not_leap_9999)
  next
    case False
    with y have "year d \<le> 9998" by simp
    from days_before_year_bounds(2) [OF y(1) this] doy lo show ?thesis
      by (simp add: toordinal_def ymd2ord_def MAXORDINAL_def split: if_splits)
  qed
qed

lemma date_add_weekend:
  assumes "valid_date d"
  shows "weekday d = 5 \<Longrightarrow> date_add d 2 = Inr (fromordinal (toordinal d + 2))"
    and "weekday d = 6 \<Longrightarrow> date_add d 1 = Inr (fromordinal (toordinal d + 1))"
proof -
  from toordinal_bounds [OF assms] have b: "1 \<le> toordinal d" "toordinal d \<le> 3652059"
    by (simp_all add: MAXORDINAL_def)
  show "date_add d 2 = Inr (fromordinal (toordinal d + 2))" if "weekday d = 5"
  proof -
    from that have "(toordinal d + 6) mod 7 = 5" by (simp add: weekday_def)
    with b have "toordinal d + 2 \<le> 3652059" by arith
    with b show ?thesis by (simp add: date_add_def MAXORDINAL_def Let_def)
  qed
  show "date_add d 1 = Inr (fromordinal (toordinal d + 1))" if "weekday d = 6"
  proof -
    from that have "(toordinal d + 6) mod 7 = 6" by (simp add: weekday_def)
    with b have "toordinal d + 1 \<le> 3652059" by arith
    with b show ?thesis by (simp add: date_add_def MAXORDINAL_def Let_def)
  qed
qed

lemma replace_year_Inr:
  "replace_year b y = Inr d \<longleftrightarrow> d = b\<lparr>year := y\<rparr> \<and> valid_date (b\<lparr>year := y\<rparr>)"
  by (auto simp: replace_year_def date_new_def valid_date_def)

lemma replace_year_Inl: "replace_year b y = Inl e \<Longrightarrow> e = ValueError"
  by (auto simp: replace_year_def date_new_def split: if_splits)

lemma replace_year_valid: "valid_date (b\<lparr>year := y\<rparr>) \<Longrightarrow> replace_year b y = Inr (b\<lparr>year := y\<rparr>)"
  by (simp add: replace_year_Inr)

lemma replace_year_invalid: "\<not> valid_date (b\<lparr>year := y\<rparr>) \<Longrightarrow> replace_year b y = Inl ValueError"
  by (cases "replace_year b y") (auto simp: replace_year_Inr dest: replace_year_Inl)

lemma shift_weekend:
  assumes "valid_date d"
  shows "(if weekday d = 5 then date_add d 2 else if weekday d = 6 then date_add d 1 else Inr d)
           = Inr (greeting_date d)"
  using date_add_weekend [OF assms] by (simp add: greeting_date_def)

lemma loop_body_projectable:
  assumes "birthday r = Some b" "projectable today b"
  shows "loop_body today r = Inr (upcoming_entry today r)"
proof -
  from assms(2) have v: "valid_date (b\<lparr>year := year today\<rparr>)" "valid_date (projected today b)"
    by (simp_all add: projectable_def)
  have second: "(if date_less (b\<lparr>year := year today\<rparr>) today
          then replace_year (b\<lparr>year := year today\<rparr>) (year today + 1)
          else Inr (b\<lparr>year := year today\<rparr>)) = Inr (projected today b)"
    using v(2) by (auto simp: projected_def replace_year_Inr)
  show ?thesis
    unfolding loop_body_def
    by (simp add: assms(1) replace_year_valid [OF v(1)] second shift_weekend [OF v(2)]
        upcoming_entry_def in_window_def Let_def)
qed

lemma loop_body_not_projectable:
  assumes "birthday r = Some b" "\<not> projectable today b"
  shows "loop_body today r = Inl ValueError"
proof (cases "valid_date (b\<lparr>year := year today\<rparr>)")
  case False
  then show ?thesis
    unfolding loop_body_def by (simp add: assms(1) replace_year_invalid)
next
  case True
  with assms(2) have n: "\<not> valid_date (projected today b)" by (simp add: projectable_def)
  with True have l: "date_less (b\<lparr>year := year today\<rparr>) today"
    by (auto simp: projected_def split: if_splits)
  with n have "\<not> valid_date (b\<lparr>year := year today + 1\<rparr>)" by (simp add: projected_def)
  then have "replace_year (b\<lparr>year := year today\<rparr>) (year today + 1) = Inl ValueError"
    using replace_year_invalid [where b = "b\<lparr>year := year today\<rparr>" and y = "year today + 1"] by simp
  with l show ?thesis
    unfolding loop_body_def by (simp add: assms(1) replace_year_valid [OF True])
qed

lemma loop_body_None: "birthday r = None \<Longrightarrow> loop_body today r = Inr (upcoming_entry today r)"
  by (simp add: loop_body_def upcoming_entry_def)

lemma loop_body_cases:
  "loop_body today r = (if raises today r then Inl ValueError else Inr (upcoming_entry today r))"
  by (cases "birthday r")
     (auto simp: raises_def loop_body_None loop_body_projectable loop_body_not_projectable)

lemma upcoming_loop_cases:
  "upcoming_loop today book acc =
     (if list_ex (\<lambda>(k, r). raises today r) book then Inl ValueError
      else Inr (acc @ List.map_filter (\<lambda>(k, r). upcoming_entry today r) book))"
proof (induction book arbitrary: acc)
  case Nil
  then show ?case by (simp add: map_filter_simps)
next
  case (Cons kr book)
  obtain k r where kr: "kr = (k, r)" by (cases kr)
  show ?case
    by (cases "upcoming_entry today r") (simp_all add: kr loop_body_cases Cons.IH map_filter_simps)
qed

lemma get_upcoming_birthdays_cases:
  "get_upcoming_birthdays today book =
     (if list_ex (\<lambda>(k, r). raises today r) book then Inl ValueError
      else Inr (List.map_filter (\<lambda>(k, r). upcoming_entry today r) book))"
  by (simp add: get_upcoming_birthdays_def upcoming_loop_cases)

subsection \<open>Upcoming birthdays\<close>

lemma leap_day_not_projectable:
  assumes "\<not> is_leap (year today)" "month b = 2" "day b = 29"
  shows "\<not> projectable today b"
  using assms
  by (simp add: projectable_def valid_date_def days_in_month_def DAYS_IN_MONTH_def)

text \<open>
  Claim C7.  Whenever the year of \<open>today\<close> is not a leap year and the book holds a contact
  whose birthday is a 29th of February, \<open>get_upcoming_birthdays\<close> raises \<open>ValueError\<close>: the
  projection \<open>bday.replace(year=today.year)\<close> of that birthday is not a date, and nothing
  resolves it to the 28th of February or the 1st of March.
\<close>

theorem leap_day_raises:
  assumes "\<not> is_leap (year today)" and "(k, r) \<in> set book"
    and "birthday r = Some b" and "month b = 2" and "day b = 29"
  shows "get_upcoming_birthdays today book = Inl ValueError"
proof -
  from assms have "raises today r"
    by (simp add: raises_def leap_day_not_projectable)
  with assms(2) have "list_ex (\<lambda>(k, r). raises today r) book"
    by (auto simp: list_ex_iff)
  then show ?thesis by (simp add: get_upcoming_birthdays_cases)
qed

theorem leap_day_raises_witness:
  "\<not> is_leap 2023 \<and>
   get_upcoming_birthdays \<lparr>year = 2023, month = 6, day = 12\<rparr>
     [(''Bob'', \<lparr>name = ''Bob'', phones = [], birthday = Some \<lparr>year = 2000, month = 2, day = 29\<rparr>\<rparr>)]
     = Inl ValueError"
  using leap_day_raises [of "\<lparr>year = 2023, month = 6, day = 12\<rparr>" "''Bob''"
      "\<lparr>name = ''Bob'', phones = [], birthday = Some \<lparr>year = 2000, month = 2, day = 29\<rparr>\<rparr>"
      "[(''Bob'', \<lparr>name = ''Bob'', phones = [], birthday = Some \<lparr>year = 2000, month = 2, day = 29\<rparr>\<rparr>)]"
      "\<lparr>year = 2000, month = 2, day = 29\<rparr>"]
  by (simp add: is_leap_def)

lemma upcoming_entry_included:
  "upcoming_entry today r \<noteq> None \<longleftrightarrow> included today r"
  by (simp add: upcoming_entry_def included_def split: option.splits)

lemma upcoming_entry_name: "upcoming_entry today r = Some e \<Longrightarrow> fst e = name r"
  by (auto simp: upcoming_entry_def split: option.splits if_splits)

lemma names_of_entries:
  "map fst (List.map_filter (\<lambda>(k, r). upcoming_entry today r) book) =
   map (\<lambda>(k, r). name r) (filter (\<lambda>(k, r). included today r) book)"
proof (induction book)
  case Nil
  then show ?case by (simp add: map_filter_simps)
next
  case (Cons kr book)
  obtain k r where kr: "kr = (k, r)" by (cases kr)
  show ?case
  proof (cases "upcoming_entry today r")
    case None
    with upcoming_entry_included [of today r] Cons.IH show ?thesis
      by (simp add: kr map_filter_simps)
  next
    case (Some e)
    with upcoming_entry_included [of today r] upcoming_entry_name [OF Some] Cons.IH show ?thesis
      by (simp add: kr map_filter_simps)
  qed
qed

text \<open>
  Claim C10.  When \<open>get_upcoming_birthdays\<close> returns, the names in the returned list are
  the names of the included records in the order in which the book holds them; the list
  is not sorted by date or by name.
\<close>

theorem upcoming_in_book_order:
  assumes "get_upcoming_birthdays today book = Inr out"
  shows "map fst out = map (\<lambda>(k, r). name r) (filter (\<lambda>(k, r). included today r) book)"
  using assms names_of_entries [of today book]
  by (auto simp: get_upcoming_birthdays_cases split: if_splits)

lemma example_order:
  "get_upcoming_birthdays \<lparr>year = 2024, month = 6, day = 10\<rparr>
     [(''Zoe'', \<lparr>name = ''Zoe'', phones = [], birthday = Some \<lparr>year = 1990, month = 6, day = 15\<rparr>\<rparr>),
      (''Ann'', \<lparr>name = ''Ann'', phones = [], birthday = Some \<lparr>year = 1990, month = 6, day = 13\<rparr>\<rparr>),
      (''Bob'', \<lparr>name = ''Bob'', phones = [], birthday = Some \<lparr>year = 1990, month = 6, day = 20\<rparr>\<rparr>)]
   = Inr [(''Zoe'', ''2024.06.17''), (''Ann'', ''2024.06.13'')]"
  by code_simp

theorem upcoming_in_book_order_witness:
  "get_upcoming_birthdays \<lparr>year = 2024, month = 6, day = 10\<rparr>
     [(''Zoe'', \<lparr>name = ''Zoe'', phones = [], birthday = Some \<lparr>year = 1990, month = 6, day = 15\<rparr>\<rparr>),
      (''Ann'', \<lparr>name = ''Ann'', phones = [], birthday = Some \<lparr>year = 1990, month = 6, day = 13\<rparr>\<rparr>),
      (''Bob'', \<lparr>name = ''Bob'', phones = [], birthday = Some \<lparr>year = 1990, month = 6, day = 20\<rparr>\<rparr>)]
   = Inr [(''Zoe'', ''2024.06.17''), (''Ann'', ''2024.06.13'')] \<and>
   [''Zoe'', ''Ann''] = map (\<lambda>(k, r). name r) (filter (\<lambda>(k, r). included \<lparr>year = 2024, month = 6, day = 10\<rparr> r)
     [(''Zoe'', \<lparr>name = ''Zoe'', phones = [], birthday = Some \<lparr>year = 1990, month = 6, day = 15\<rparr>\<rparr>),
      (''Ann'', \<lparr>name = ''Ann'', phones = [], birthday = Some \<lparr>year = 1990, month = 6, day = 13\<rparr>\<rparr>),
      (''Bob'', \<lparr>name = ''Bob'', phones = [], birthday = Some \<lparr>year = 1990, month = 6, day = 20\<rparr>\<rparr>)])"
  using upcoming_in_book_order [OF example_order] example_order by simp

lemma wf_book_unique:
  assumes "wf_book book" "(k, r) \<in> set book" "(k', r') \<in> set book" "name r' = name r"
  shows "r' = r"
proof -
  from assms(1,2) have "name r = k" by (fastforce simp: wf_book_def list_all_iff)
  moreover from assms(1,3) have "name r' = k'" by (fastforce simp: wf_book_def list_all_iff)
  ultimately have "k' = k" using assms(4) by simp
  moreover from assms(1) have "distinct (map fst book)" by (simp add: wf_book_def)
  ultimately show ?thesis using assms(2,3) by (auto dest: eq_key_imp_eq_value)
qed

lemma set_map_filter: "set (List.map_filter f xs) = {y. \<exists>x \<in> set xs. f x = Some y}"
  by (induction xs) (auto simp: map_filter_simps split: option.splits)

text \<open>
  Where no record of the book raises, the code does what the specification says for
  every contact with a birthday: the call returns, the contact appears if and only if its
  projected birthday is in the window, and its entry carries the greeting date in the
  form year.month.day.
\<close>

lemma upcoming_birthdays_policy:
  assumes "wf_book book"
    and "\<forall>(k, r) \<in> set book. \<forall>b. birthday r = Some b \<longrightarrow> projectable today b"
    and "(k, r) \<in> set book" and "birthday r = Some b"
  shows "\<exists>out. get_upcoming_birthdays today book = Inr out \<and>
           ((\<exists>g. (name r, g) \<in> set out) \<longleftrightarrow> in_window today (projected today b)) \<and>
           (\<forall>g. (name r, g) \<in> set out \<longrightarrow> g = strftime_Ymd (greeting_date (projected today b)))"
proof -
  let ?out = "List.map_filter (\<lambda>(k, r). upcoming_entry today r) book"
  from assms(2) have "\<not> list_ex (\<lambda>(k, r). raises today r) book"
    by (auto simp: list_ex_iff raises_def split: option.splits)
  then have ret: "get_upcoming_birthdays today book = Inr ?out"
    by (simp add: get_upcoming_birthdays_cases)
  have mem: "e \<in> set ?out \<longleftrightarrow> (\<exists>(k', r') \<in> set book. upcoming_entry today r' = Some e)" for e
    by (force simp: set_map_filter)
  have own: "upcoming_entry today r =
      (if in_window today (projected today b)
       then Some (name r, strftime_Ymd (greeting_date (projected today b))) else None)"
    by (simp add: upcoming_entry_def assms(4))
  have only: "g = strftime_Ymd (greeting_date (projected today b)) \<and> in_window today (projected today b)"
    if "(name r, g) \<in> set ?out" for g
  proof -
    from that obtain k' r' where kr': "(k', r') \<in> set book"
      and e: "upcoming_entry today r' = Some (name r, g)" by (auto simp: mem)
    from upcoming_entry_name [OF e] have "name r' = name r" by simp
    from wf_book_unique [OF assms(1) assms(3) kr' this] have "r' = r" .
    with e own show ?thesis by (auto split: if_splits)
  qed
  have "(name r, strftime_Ymd (greeting_date (projected today b))) \<in> set ?out"
    if "in_window today (projected today b)"
    using that own assms(3) by (auto simp: mem)
  with only ret show ?thesis by blast
qed

text \<open>
  Claim C1 at an input where the code breaks it.  On Monday the 12th of June 2023 Ann,
  born on a 13th of June, has a projected birthday that is a date and lies in the window,
  and alone in the book she is listed for the 13th.  With Bob, born on a 29th of
  February, in the same book the whole call raises \<open>ValueError\<close>, and Ann is not listed.
\<close>

theorem upcoming_birthdays_leap_day_neighbour:
  "valid_date (\<lparr>year = 1990, month = 6, day = 13\<rparr>\<lparr>year := 2023\<rparr>) \<and>
   in_window \<lparr>year = 2023, month = 6, day = 12\<rparr>
     (projected \<lparr>year = 2023, month = 6, day = 12\<rparr> \<lparr>year = 1990, month = 6, day = 13\<rparr>) \<and>
   get_upcoming_birthdays \<lparr>year = 2023, month = 6, day = 12\<rparr>
     [(''Ann'', \<lparr>name = ''Ann'', phones = [], birthday = Some \<lparr>year = 1990, month = 6, day = 13\<rparr>\<rparr>)]
     = Inr [(''Ann'', ''2023.06.13'')] \<and>
   get_upcoming_birthdays \<lparr>year = 2023, month = 6, day = 12\<rparr>
     [(''Ann'', \<lparr>name = ''Ann'', phones = [], birthday = Some \<lparr>year = 1990, month = 6, day = 13\<rparr>\<rparr>),
      (''Bob'', \<lparr>name = ''Bob'', phones = [], birthday = Some \<lparr>year = 2000, month = 2, day = 29\<rparr>\<rparr>)]
     = Inl ValueError"
  by code_simp

subsection \<open>Birthdays\<close>

text \<open>
  The two examples of the specification, and a date in the strict form: the leap day of
  2024 is accepted, the 31st of April is refused.
\<close>

lemma Birthday_init_examples:
  "Birthday_init ''29.02.2024'' = Inr \<lparr>year = 2024, month = 2, day = 29\<rparr> \<and>
   Birthday_init ''31.04.2023'' = Inl ValueError \<and>
   Birthday_init ''13.06.1990'' = Inr \<lparr>year = 1990, month = 6, day = 13\<rparr> \<and>
   strict_pattern ''13.06.1990''"
  by code_simp

text \<open>
  Claim C6 at the input where the code breaks it.  The string \<open>1.1.2024\<close> does not have
  two digits for the day nor for the month, and \<open>Birthday\<close> accepts it as the first of
  January 2024: the parser of the library takes a day or a month of one digit.
\<close>

theorem Birthday_init_unpadded:
  "Birthday_init ''1.1.2024'' = Inr \<lparr>year = 2024, month = 1, day = 1\<rparr> \<and>
   \<not> strict_pattern ''1.1.2024''"
  by code_simp

subsection \<open>Saving and loading again\<close>

text \<open>A book with two contacts, two different phones and a birthday comes back as it was.\<close>

lemma round_trip_example:
  "load_address_book (save_address_book
     [(''Ann'', \<lparr>name = ''Ann'', phones = [''0501112233'', ''0671234567''],
         birthday = Some \<lparr>year = 1990, month = 6, day = 13\<rparr>\<rparr>),
      (''Bob'', \<lparr>name = ''Bob'', phones = [], birthday = None\<rparr>)]) =
     [(''Ann'', \<lparr>name = ''Ann'', phones = [''0501112233'', ''0671234567''],
         birthday = Some \<lparr>year = 1990, month = 6, day = 13\<rparr>\<rparr>),
      (''Bob'', \<lparr>name = ''Bob'', phones = [], birthday = None\<rparr>)]"
  by code_simp

text \<open>
  A birthday before the year 1000 is written with a year of fewer than four digits, which
  the parser refuses on loading.
\<close>

lemma round_trip_early_year:
  "Birthday_init ''02.01.0999'' = Inr \<lparr>year = 999, month = 1, day = 2\<rparr> \<and>
   save_address_book
     [(''Ann'', \<lparr>name = ''Ann'', phones = [], birthday = Some \<lparr>year = 999, month = 1, day = 2\<rparr>\<rparr>)] =
     [(''Ann'', ([], Some ''02.01.999''))] \<and>
   load_address_book [(''Ann'', ([], Some ''02.01.999''))] =
     [(''Ann'', \<lparr>name = ''Ann'', phones = [], birthday = None\<rparr>)]"
  by code_simp

text \<open>
  Claim C9 at an input where the code breaks it.  Two valid phones are added to a new
  record and \<open>edit_phone\<close> replaces the first by the value of the second; the record then
  holds that number twice.  Saving writes both, and loading, which adds the phones with
  \<open>add_phone\<close>, keeps one: the phones that come back are not the phones that were saved.
\<close>

theorem round_trip_duplicate_phones:
  "snd (edit_phone (snd (add_phone (snd (add_phone (Record_init ''Ann'') ''0501112233'')) ''0671234567''))
      ''0501112233'' ''0671234567'') =
     \<lparr>name = ''Ann'', phones = [''0671234567'', ''0671234567''], birthday = None\<rparr> \<and>
   save_address_book
     [(''Ann'', \<lparr>name = ''Ann'', phones = [''0671234567'', ''0671234567''], birthday = None\<rparr>)] =
     [(''Ann'', ([''0671234567'', ''0671234567''], None))] \<and>
   load_address_book [(''Ann'', ([''0671234567'', ''0671234567''], None))] =
     [(''Ann'', \<lparr>name = ''Ann'', phones = [''0671234567''], birthday = None\<rparr>)]"
  by code_simp

end
